theory Spec2Isabelle
  imports Complex_Main
begin

section \<open>Numbers and arrays as \<open>fit.py\<close> sees them\<close>

text \<open>
  \<open>fit.py\<close> computes with numpy's \<open>float64\<close>. A value is either finite, one of the two
  infinities, or not-a-number. The finite values are taken as exact reals here: rounding,
  overflow of a finite result and the sign of zero are outside this model (a zero divisor
  is read as \<open>+0\<close>). What is modelled is where the arithmetic leaves the finite numbers,
  since numpy then goes on with \<open>inf\<close> or \<open>nan\<close> (and a warning) where Python's own
  floats would raise.
\<close>

datatype float64 = Fin real | PInf | NInf | NaN

fun fl_neg :: "float64 \<Rightarrow> float64" where
  "fl_neg (Fin a) = Fin (- a)"
| "fl_neg PInf = NInf"
| "fl_neg NInf = PInf"
| "fl_neg NaN = NaN"

fun fl_add :: "float64 \<Rightarrow> float64 \<Rightarrow> float64" where
  "fl_add (Fin a) (Fin b) = Fin (a + b)"
| "fl_add NaN y = NaN"
| "fl_add x NaN = NaN"
| "fl_add PInf NInf = NaN"
| "fl_add NInf PInf = NaN"
| "fl_add PInf y = PInf"
| "fl_add x PInf = PInf"
| "fl_add NInf y = NInf"
| "fl_add x NInf = NInf"

definition fl_sub :: "float64 \<Rightarrow> float64 \<Rightarrow> float64" where
  "fl_sub x y = fl_add x (fl_neg y)"

text \<open>An infinity with the sign of a non-zero real, or flipped.\<close>

definition signed_inf :: "bool \<Rightarrow> float64" where
  "signed_inf positive = (if positive then PInf else NInf)"

fun fl_mul :: "float64 \<Rightarrow> float64 \<Rightarrow> float64" where
  "fl_mul (Fin a) (Fin b) = Fin (a * b)"
| "fl_mul NaN y = NaN"
| "fl_mul x NaN = NaN"
| "fl_mul PInf (Fin b) = (if b = 0 then NaN else signed_inf (0 < b))"
| "fl_mul NInf (Fin b) = (if b = 0 then NaN else signed_inf (b < 0))"
| "fl_mul (Fin a) PInf = (if a = 0 then NaN else signed_inf (0 < a))"
| "fl_mul (Fin a) NInf = (if a = 0 then NaN else signed_inf (a < 0))"
| "fl_mul PInf PInf = PInf"
| "fl_mul NInf NInf = PInf"
| "fl_mul PInf NInf = NInf"
| "fl_mul NInf PInf = NInf"

text \<open>
  Division never raises on \<open>float64\<close>: a finite non-zero value over zero is an infinity,
  zero over zero is \<open>nan\<close>.
\<close>

fun fl_div :: "float64 \<Rightarrow> float64 \<Rightarrow> float64" where
  "fl_div (Fin a) (Fin b) =
     (if b \<noteq> 0 then Fin (a / b) else if a = 0 then NaN else signed_inf (0 < a))"
| "fl_div NaN y = NaN"
| "fl_div x NaN = NaN"
| "fl_div (Fin a) PInf = Fin 0"
| "fl_div (Fin a) NInf = Fin 0"
| "fl_div PInf (Fin b) = signed_inf (0 \<le> b)"
| "fl_div NInf (Fin b) = signed_inf (b < 0)"
| "fl_div PInf y = NaN"
| "fl_div NInf y = NaN"

fun fl_exp :: "float64 \<Rightarrow> float64" where
  "fl_exp (Fin a) = Fin (exp a)"
| "fl_exp PInf = PInf"
| "fl_exp NInf = Fin 0"
| "fl_exp NaN = NaN"

fun fl_sqrt :: "float64 \<Rightarrow> float64" where
  "fl_sqrt (Fin a) = (if a < 0 then NaN else Fin (sqrt a))"
| "fl_sqrt PInf = PInf"
| "fl_sqrt NInf = NaN"
| "fl_sqrt NaN = NaN"

text \<open>\<open>x ** 2\<close>.\<close>

fun fl_sq :: "float64 \<Rightarrow> float64" where
  "fl_sq (Fin a) = Fin (a ^ 2)"
| "fl_sq PInf = PInf"
| "fl_sq NInf = PInf"
| "fl_sq NaN = NaN"

text \<open>
  The exceptions that can cross the functions of \<open>fit.py\<close>. None of them is raised by a
  \<open>raise\<close> statement of the file: they come from numpy's indexing and broadcasting and
  from the solver.
\<close>

datatype pyexc = ValueError | TypeError | RuntimeError | IndexError

text \<open>
  A mixing-time argument is a single value or a one-dimensional array. numpy combines two
  operands element by element; a scalar, or an array of one element, is stretched to the
  other operand's length, and two arrays of other, different lengths do not broadcast
  (\<open>ValueError\<close>).
\<close>

datatype ndarray = Scalar float64 | Array "float64 list"

fun broadcast :: "(float64 \<Rightarrow> float64 \<Rightarrow> float64) \<Rightarrow> ndarray \<Rightarrow> ndarray \<Rightarrow> pyexc + ndarray" where
  "broadcast f (Scalar x) (Scalar y) = Inr (Scalar (f x y))"
| "broadcast f (Scalar x) (Array ys) = Inr (Array (map (f x) ys))"
| "broadcast f (Array xs) (Scalar y) = Inr (Array (map (\<lambda>x. f x y) xs))"
| "broadcast f (Array xs) (Array ys) =
     (if length xs = length ys then Inr (Array (map2 f xs ys))
      else if length xs = 1 then Inr (Array (map (f (hd xs)) ys))
      else if length ys = 1 then Inr (Array (map (\<lambda>x. f x (hd ys)) xs))
      else Inl ValueError)"

text \<open>A unary numpy function (\<open>np.exp\<close>) works element by element.\<close>

fun elementwise :: "(float64 \<Rightarrow> float64) \<Rightarrow> ndarray \<Rightarrow> ndarray" where
  "elementwise f (Scalar x) = Scalar (f x)"
| "elementwise f (Array xs) = Array (map f xs)"

text \<open>An exception in an operand is the exception of the whole expression.\<close>

definition lift2 :: "(float64 \<Rightarrow> float64 \<Rightarrow> float64) \<Rightarrow> pyexc + ndarray \<Rightarrow> pyexc + ndarray \<Rightarrow> pyexc + ndarray" where
  "lift2 f a b =
     (case a of Inl e \<Rightarrow> Inl e
      | Inr x \<Rightarrow> (case b of Inl e \<Rightarrow> Inl e | Inr y \<Rightarrow> broadcast f x y))"



section \<open>The exchange model: \<open>calc_iratio\<close>\<close>

text \<open>
  \<^verbatim>\<open>return ((1 - np.exp(-(k_12 + k_21) * t_m)) * k_12) / \
         (k_21 + k_12 * np.exp(-(k_12 + k_21) * t_m))\<close>
  with \<open>k_12\<close> and \<open>k_21\<close> two floats and \<open>t_m\<close> a value or an array.
\<close>

definition decay :: "ndarray \<Rightarrow> float64 \<Rightarrow> float64 \<Rightarrow> pyexc + ndarray" where
  "decay t_m k_12 k_21 =
     map_sum id (elementwise fl_exp)
       (broadcast fl_mul (Scalar (fl_neg (fl_add k_12 k_21))) t_m)"

definition calc_iratio :: "ndarray \<Rightarrow> float64 \<Rightarrow> float64 \<Rightarrow> pyexc + ndarray" where
  "calc_iratio t_m k_12 k_21 =
     lift2 fl_div
       (lift2 fl_mul
          (lift2 fl_sub (Inr (Scalar (Fin 1))) (decay t_m k_12 k_21))
          (Inr (Scalar k_12)))
       (lift2 fl_add
          (Inr (Scalar k_21))
          (lift2 fl_mul (Inr (Scalar k_12)) (decay t_m k_12 k_21)))"





section \<open>The rate estimator: \<open>calc_rates\<close>\<close>

text \<open>
  \<open>scipy.optimize.curve_fit\<close> is not part of the repository, so the solver is a
  parameter of the model. It is given the model function and the two data series, and it
  either raises or returns the optimal parameters and their covariance matrix.
  \<open>calc_iratio\<close> has two parameters after \<open>t_m\<close>, so \<open>popt\<close> has two entries and
  \<open>pcov\<close> is a 2 by 2 matrix, written as its two rows.
\<close>

type_synonym params = "float64 \<times> float64"
type_synonym covariance = "(float64 \<times> float64) \<times> (float64 \<times> float64)"
type_synonym model = "ndarray \<Rightarrow> float64 \<Rightarrow> float64 \<Rightarrow> pyexc + ndarray"
type_synonym solver = "model \<Rightarrow> float64 list \<Rightarrow> float64 list \<Rightarrow> pyexc + params \<times> covariance"

definition np_diag :: "covariance \<Rightarrow> params" where
  "np_diag m = (fst (fst m), snd (snd m))"

definition np_sqrt :: "params \<Rightarrow> params" where
  "np_sqrt v = (fl_sqrt (fst v), fl_sqrt (snd v))"

text \<open>
  What \<open>calc_rates\<close> does besides returning: it calls the solver, and it prints three
  lines, each a label, a value and its uncertainty (the rendering to three decimals and the
  unit text are not modelled).
\<close>

datatype event = CurveFit "float64 list" "float64 list" | Print string float64 float64

text \<open>The tuple \<open>param, p_sigma, Kex, K_error\<close> that \<open>calc_rates\<close> returns.\<close>

record fit_result =
  ret_param :: params
  ret_p_sigma :: params
  ret_Kex :: float64
  ret_K_error :: float64

definition calc_rates :: "solver \<Rightarrow> float64 list \<Rightarrow> float64 list \<Rightarrow> event list \<times> (pyexc + fit_result)" where
  "calc_rates curve_fit times' ratios =
     (case curve_fit calc_iratio times' ratios of
        Inl e \<Rightarrow> ([CurveFit times' ratios], Inl e)
      | Inr (param, param_cov) \<Rightarrow>
          (let p_sigma = np_sqrt (np_diag param_cov);
               k12 = fl_mul (fst param) (Fin 1000);
               k21 = fl_mul (snd param) (Fin 1000);
               k12_err = fl_mul (fst p_sigma) (Fin 1000);
               k21_err = fl_mul (snd p_sigma) (Fin 1000);
               Kex = fl_div (fst param) (snd param);
               K_error = fl_mul Kex
                 (fl_sqrt (fl_add (fl_sq (fl_div (fst p_sigma) (fst param)))
                                  (fl_sq (fl_div (snd p_sigma) (snd param)))))
           in ([CurveFit times' ratios,
                Print ''k_12'' k12 k12_err,
                Print ''k_21'' k21 k21_err,
                Print ''K_ex'' Kex K_error],
               Inr \<lparr>ret_param = param, ret_p_sigma = p_sigma, ret_Kex = Kex, ret_K_error = K_error\<rparr>)))"

definition is_finite :: "float64 \<Rightarrow> bool" where
  "is_finite x = (case x of Fin _ \<Rightarrow> True | _ \<Rightarrow> False)"

text \<open>
  Two solvers to run \<open>calc_rates\<close> against: one answers every request with a given optimum
  and covariance, the other raises a given exception.
\<close>

definition solver_returning :: "params \<Rightarrow> covariance \<Rightarrow> solver" where
  "solver_returning popt pcov f xdata ydata = Inr (popt, pcov)"

definition solver_raising :: "pyexc \<Rightarrow> solver" where
  "solver_raising e f xdata ydata = Inl e"


section \<open>Loading the data and running the fit: \<open>load_data\<close>, \<open>main\<close>\<close>

text \<open>
  \<open>np.loadtxt\<close> returns an array of dimension 0, 1 or 2 (a file of one row or of one
  column comes back one-dimensional). A two-dimensional array is its number of columns
  and its rows, each row having that many entries.
\<close>

datatype loaded = Dim0 float64 | Dim1 "float64 list" | Dim2 nat "float64 list list"

text \<open>\<open>data[:, j]\<close>: needs two dimensions and a column \<open>j\<close>.\<close>

fun column :: "nat \<Rightarrow> loaded \<Rightarrow> pyexc + float64 list" where
  "column j (Dim2 ncols rows) =
     (if j < ncols then Inr (map (\<lambda>r. r ! j) rows) else Inl IndexError)"
| "column j _ = Inl IndexError"

text \<open>\<open>data.shape[1]\<close>.\<close>

fun shape1 :: "loaded \<Rightarrow> pyexc + nat" where
  "shape1 (Dim2 ncols rows) = Inr ncols"
| "shape1 _ = Inl IndexError"

definition zeros_like :: "float64 list \<Rightarrow> float64 list" where
  "zeros_like xs = map (\<lambda>_. Fin 0) xs"

definition load_data :: "loaded \<Rightarrow> pyexc + float64 list \<times> float64 list \<times> float64 list" where
  "load_data data =
     (case column 0 data of Inl e \<Rightarrow> Inl e | Inr times' \<Rightarrow>
      (case column 1 data of Inl e \<Rightarrow> Inl e | Inr ratios \<Rightarrow>
       (case shape1 data of Inl e \<Rightarrow> Inl e | Inr ncols \<Rightarrow>
        (if ncols > 2
         then (case column 2 data of Inl e \<Rightarrow> Inl e
               | Inr errors \<Rightarrow> Inr (times', ratios, errors))
         else Inr (times', ratios, zeros_like ratios)))))"

text \<open>
  The two lines of \<open>main\<close> that produce the fit, given the array read from the input file:
  \<^verbatim>\<open>times, ratios, errors = load_data(args.input)
  fit_params, fit_errors, Kex, Kex_err = calc_rates(times, ratios)\<close>
\<close>

definition main_fit :: "solver \<Rightarrow> loaded \<Rightarrow> event list \<times> (pyexc + fit_result)" where
  "main_fit curve_fit data =
     (case load_data data of
        Inl e \<Rightarrow> ([], Inl e)
      | Inr (times', ratios, errors) \<Rightarrow> calc_rates curve_fit times' ratios)"


section \<open>Properties of the exchange model\<close>







subsection \<open>The model over the reals\<close>















section \<open>Properties of the rate estimator\<close>

lemma calc_rates_raises:
  "curve_fit calc_iratio ts rs = Inl e \<Longrightarrow> calc_rates curve_fit ts rs = ([CurveFit ts rs], Inl e)"
  by (simp add: calc_rates_def)

lemma calc_rates_returns:
  assumes "curve_fit calc_iratio ts rs = Inr ((k12, k21), ((v1, c12), (c21, v2)))"
  shows "calc_rates curve_fit ts rs =
    ([CurveFit ts rs,
      Print ''k_12'' (fl_mul k12 (Fin 1000)) (fl_mul (fl_sqrt v1) (Fin 1000)),
      Print ''k_21'' (fl_mul k21 (Fin 1000)) (fl_mul (fl_sqrt v2) (Fin 1000)),
      Print ''K_ex'' (fl_div k12 k21)
        (fl_mul (fl_div k12 k21)
           (fl_sqrt (fl_add (fl_sq (fl_div (fl_sqrt v1) k12)) (fl_sq (fl_div (fl_sqrt v2) k21)))))],
     Inr \<lparr>ret_param = (k12, k21), ret_p_sigma = (fl_sqrt v1, fl_sqrt v2),
          ret_Kex = fl_div k12 k21,
          ret_K_error = fl_mul (fl_div k12 k21)
            (fl_sqrt (fl_add (fl_sq (fl_div (fl_sqrt v1) k12)) (fl_sq (fl_div (fl_sqrt v2) k21))))\<rparr>)"
  using assms by (simp add: calc_rates_def Let_def np_diag_def np_sqrt_def)




subsection \<open>Values that are not finite\<close>

lemma not_finite_div_zero: "\<not> is_finite (fl_div x (Fin 0))"
  by (cases x) (simp_all add: is_finite_def signed_inf_def)

lemma not_finite_div: "\<not> is_finite x \<Longrightarrow> \<not> is_finite (fl_div x y)"
  by (cases x; cases y) (simp_all add: is_finite_def signed_inf_def)

lemma not_finite_sq: "\<not> is_finite x \<Longrightarrow> \<not> is_finite (fl_sq x)"
  by (cases x) (simp_all add: is_finite_def)

lemma not_finite_add_left: "\<not> is_finite x \<Longrightarrow> \<not> is_finite (fl_add x y)"
  by (cases x; cases y) (simp_all add: is_finite_def)

lemma not_finite_add_right: "\<not> is_finite y \<Longrightarrow> \<not> is_finite (fl_add x y)"
  by (cases x; cases y) (simp_all add: is_finite_def)

lemma not_finite_sqrt: "\<not> is_finite x \<Longrightarrow> \<not> is_finite (fl_sqrt x)"
  by (cases x) (simp_all add: is_finite_def)

lemma not_finite_mul_right: "\<not> is_finite y \<Longrightarrow> \<not> is_finite (fl_mul x y)"
  by (cases x; cases y) (simp_all add: is_finite_def signed_inf_def)

lemma K_error_not_finite:
  assumes "\<not> is_finite (fl_div s1 k12) \<or> \<not> is_finite (fl_div s2 k21)"
  shows "\<not> is_finite (fl_mul K (fl_sqrt (fl_add (fl_sq (fl_div s1 k12)) (fl_sq (fl_div s2 k21)))))"
proof -
  have "\<not> is_finite (fl_add (fl_sq (fl_div s1 k12)) (fl_sq (fl_div s2 k21)))"
    using assms not_finite_add_left not_finite_add_right not_finite_sq by blast
  then show ?thesis
    by (intro not_finite_mul_right not_finite_sqrt)
qed

subsection \<open>What \<open>calc_rates\<close> checks\<close>

text \<open>
  Claim C3. \<open>calc_rates\<close> validates nothing itself. Whatever the lengths of the two series,
  also when they differ or hold fewer than 2 points, its first action is the call of the
  solver on them as given, and it raises exactly when the solver raises, with the solver's
  exception.
\<close>

theorem calc_rates_no_validation:
  "(\<exists>evs. fst (calc_rates curve_fit ts rs) = CurveFit ts rs # evs)
   \<and> (\<forall>e. (snd (calc_rates curve_fit ts rs) = Inl e) = (curve_fit calc_iratio ts rs = Inl e))"
  by (cases "curve_fit calc_iratio ts rs") (auto simp add: calc_rates_def Let_def split: prod.splits)

text \<open>
  The specification asks for a rejection before the solver is invoked. On times of length 3
  with ratios of length 2, and on a single data point, the solver is called (and it is the
  solver that raises, as scipy does there); on times of length 3 with one ratio, which numpy
  broadcasts, a solver that answers makes \<open>calc_rates\<close> return a result.
\<close>

theorem calc_rates_shape_counterexample:
  "calc_rates (solver_raising ValueError) [Fin 10, Fin 50, Fin 100] [Fin (1/10), Fin (3/10)]
     = ([CurveFit [Fin 10, Fin 50, Fin 100] [Fin (1/10), Fin (3/10)]], Inl ValueError)
   \<and> calc_rates (solver_raising TypeError) [Fin 10] [Fin (1/10)]
     = ([CurveFit [Fin 10] [Fin (1/10)]], Inl TypeError)
   \<and> fst (calc_rates (solver_returning (Fin 1, Fin 2) ((Fin 0, Fin 0), (Fin 0, Fin 0)))
            [Fin 10, Fin 50, Fin 100] [Fin (1/2)])
       ! 0 = CurveFit [Fin 10, Fin 50, Fin 100] [Fin (1/2)]
   \<and> \<not> isl (snd (calc_rates (solver_returning (Fin 1, Fin 2) ((Fin 0, Fin 0), (Fin 0, Fin 0)))
            [Fin 10, Fin 50, Fin 100] [Fin (1/2)]))"
  by (simp add: calc_rates_def solver_raising_def solver_returning_def Let_def)

text \<open>
  Claim C4. A fitted rate of zero raises nothing. When the fitted \<open>k21\<close> is zero the
  returned exchange ratio is not finite (an infinity, or \<open>nan\<close>), and when the fitted
  \<open>k12\<close> or \<open>k21\<close> is zero the returned error is not finite.
\<close>

theorem calc_rates_zero_rate:
  assumes "curve_fit calc_iratio ts rs = Inr ((k12, k21), ((v1, c12), (c21, v2)))"
  shows "\<exists>out. snd (calc_rates curve_fit ts rs) = Inr out
     \<and> (k21 = Fin 0 \<longrightarrow> \<not> is_finite (ret_Kex out))
     \<and> (k12 = Fin 0 \<or> k21 = Fin 0 \<longrightarrow> \<not> is_finite (ret_K_error out))"
proof -
  note r = calc_rates_returns [of curve_fit ts rs k12 k21 v1 c12 c21 v2, OF assms]
  have "k12 = Fin 0 \<or> k21 = Fin 0 \<Longrightarrow>
      \<not> is_finite (fl_div (fl_sqrt v1) k12) \<or> \<not> is_finite (fl_div (fl_sqrt v2) k21)"
    using not_finite_div_zero by blast
  then show ?thesis
    unfolding r snd_conv using not_finite_div_zero K_error_not_finite by simp
qed

theorem calc_rates_zero_rate_witness:
  "solver_returning (Fin 0, Fin 0) ((Fin 1, Fin 0), (Fin 0, Fin 1)) calc_iratio [Fin 10, Fin 50] [Fin 0, Fin 0]
     = Inr ((Fin 0, Fin 0), ((Fin 1, Fin 0), (Fin 0, Fin 1)))
   \<and> (\<exists>out. snd (calc_rates (solver_returning (Fin 0, Fin 0) ((Fin 1, Fin 0), (Fin 0, Fin 1)))
                  [Fin 10, Fin 50] [Fin 0, Fin 0]) = Inr out
        \<and> \<not> is_finite (ret_Kex out) \<and> \<not> is_finite (ret_K_error out))"
proof -
  let ?S = "solver_returning (Fin 0, Fin 0) ((Fin 1, Fin 0), (Fin 0, Fin 1))"
  have h: "?S calc_iratio [Fin 10, Fin 50] [Fin 0, Fin 0]
     = Inr ((Fin 0, Fin 0), ((Fin 1, Fin 0), (Fin 0, Fin 1)))"
    by (simp add: solver_returning_def)
  show ?thesis
    using h calc_rates_zero_rate [of ?S "[Fin 10, Fin 50]" "[Fin 0, Fin 0]"
        "Fin 0" "Fin 0" "Fin 1" "Fin 0" "Fin 0" "Fin 1", OF h]
    by simp
qed

text \<open>
  The specification asks for a DegenerateParameter error here. With fitted rates 1 and 0
  the call returns, and prints, \<open>inf\<close> with error \<open>nan\<close>.
\<close>

theorem calc_rates_zero_rate_counterexample:
  "calc_rates (solver_returning (Fin 1, Fin 0) ((Fin 0, Fin 0), (Fin 0, Fin 0)))
       [Fin 10, Fin 50, Fin 100] [Fin (1/10), Fin (3/10), Fin (2/5)]
   = ([CurveFit [Fin 10, Fin 50, Fin 100] [Fin (1/10), Fin (3/10), Fin (2/5)],
       Print ''k_12'' (Fin 1000) (Fin 0), Print ''k_21'' (Fin 0) (Fin 0),
       Print ''K_ex'' PInf NaN],
      Inr \<lparr>ret_param = (Fin 1, Fin 0), ret_p_sigma = (Fin 0, Fin 0),
           ret_Kex = PInf, ret_K_error = NaN\<rparr>)"
  by (simp add: calc_rates_def solver_returning_def Let_def np_diag_def np_sqrt_def signed_inf_def)

text \<open>
  Claim C5. Whenever the solver returns, the tuple \<open>calc_rates\<close> returns carries the fitted
  parameters and their standard errors as the solver gave them, alongside the exchange
  ratio and its error; the values multiplied by 1000 appear in the printed lines only.
\<close>

theorem calc_rates_returns_unconverted:
  assumes "curve_fit calc_iratio ts rs = Inr ((k12, k21), ((v1, c12), (c21, v2)))"
  shows "\<exists>out. calc_rates curve_fit ts rs =
       ([CurveFit ts rs,
         Print ''k_12'' (fl_mul k12 (Fin 1000)) (fl_mul (fl_sqrt v1) (Fin 1000)),
         Print ''k_21'' (fl_mul k21 (Fin 1000)) (fl_mul (fl_sqrt v2) (Fin 1000)),
         Print ''K_ex'' (ret_Kex out) (ret_K_error out)],
        Inr out)
     \<and> ret_param out = (k12, k21)
     \<and> ret_p_sigma out = (fl_sqrt v1, fl_sqrt v2)"
proof -
  note r = calc_rates_returns [of curve_fit ts rs k12 k21 v1 c12 c21 v2, OF assms]
  show ?thesis unfolding r by simp
qed

theorem calc_rates_returns_unconverted_witness:
  "solver_returning (Fin 3, Fin 5) ((Fin 4, Fin 0), (Fin 0, Fin 1)) calc_iratio [Fin 10, Fin 50] [Fin (1/10), Fin (1/5)]
     = Inr ((Fin 3, Fin 5), ((Fin 4, Fin 0), (Fin 0, Fin 1)))
   \<and> (\<exists>out. calc_rates (solver_returning (Fin 3, Fin 5) ((Fin 4, Fin 0), (Fin 0, Fin 1)))
                  [Fin 10, Fin 50] [Fin (1/10), Fin (1/5)] =
       ([CurveFit [Fin 10, Fin 50] [Fin (1/10), Fin (1/5)],
         Print ''k_12'' (Fin 3000) (Fin 2000),
         Print ''k_21'' (Fin 5000) (Fin 1000),
         Print ''K_ex'' (ret_Kex out) (ret_K_error out)],
        Inr out)
     \<and> ret_param out = (Fin 3, Fin 5)
     \<and> ret_p_sigma out = (Fin 2, Fin 1))"
proof -
  let ?S = "solver_returning (Fin 3, Fin 5) ((Fin 4, Fin 0), (Fin 0, Fin 1))"
  have h: "?S calc_iratio [Fin 10, Fin 50] [Fin (1/10), Fin (1/5)]
     = Inr ((Fin 3, Fin 5), ((Fin 4, Fin 0), (Fin 0, Fin 1)))"
    by (simp add: solver_returning_def)
  show ?thesis
    using h calc_rates_returns_unconverted [of ?S "[Fin 10, Fin 50]" "[Fin (1/10), Fin (1/5)]"
        "Fin 3" "Fin 5" "Fin 4" "Fin 0" "Fin 0" "Fin 1", OF h]
    by simp
qed

text \<open>
  The specification has the returned rates multiplied by 1000. With fitted rates 1 and 2
  the returned pair is \<open>(1, 2)\<close>, not \<open>(1000, 2000)\<close>.
\<close>

theorem calc_rates_conversion_counterexample:
  "snd (calc_rates (solver_returning (Fin 1, Fin 2) ((Fin 0, Fin 0), (Fin 0, Fin 0)))
       [Fin 10, Fin 50, Fin 100] [Fin (1/10), Fin (3/10), Fin (2/5)])
   = Inr \<lparr>ret_param = (Fin 1, Fin 2), ret_p_sigma = (Fin 0, Fin 0),
          ret_Kex = Fin (1 / 2), ret_K_error = Fin 0\<rparr>
   \<and> (Fin 1, Fin 2) \<noteq> (fl_mul (Fin 1) (Fin 1000), fl_mul (Fin 2) (Fin 1000))"
  by (simp add: calc_rates_def solver_returning_def Let_def np_diag_def np_sqrt_def)

text \<open>
  Claim C6. If the solver raises, as scipy does when the least-squares search fails,
  \<open>calc_rates\<close> raises the same exception, prints nothing and returns no result. If the
  solver returns a covariance with an infinite diagonal, which is scipy's answer when it
  cannot estimate the covariance, \<open>calc_rates\<close> raises nothing and returns infinite
  standard errors and an error of the exchange ratio that is not finite.
\<close>

theorem calc_rates_solver_failure:
  "(curve_fit calc_iratio ts rs = Inl e \<longrightarrow> calc_rates curve_fit ts rs = ([CurveFit ts rs], Inl e))
   \<and> (curve_fit calc_iratio ts rs = Inr (p, ((PInf, c12), (c21, PInf)))
      \<longrightarrow> (\<exists>out. snd (calc_rates curve_fit ts rs) = Inr out
             \<and> ret_p_sigma out = (PInf, PInf) \<and> \<not> is_finite (ret_K_error out)))"
proof (intro conjI impI)
  assume "curve_fit calc_iratio ts rs = Inl e"
  then show "calc_rates curve_fit ts rs = ([CurveFit ts rs], Inl e)"
    by (rule calc_rates_raises)
next
  assume a: "curve_fit calc_iratio ts rs = Inr (p, ((PInf, c12), (c21, PInf)))"
  obtain k12 k21 where p: "p = (k12, k21)" by (cases p)
  note r = calc_rates_returns [of curve_fit ts rs k12 k21 PInf c12 c21 PInf, OF a [unfolded p]]
  have "\<not> is_finite (fl_div (fl_sqrt PInf) k12)"
    by (rule not_finite_div) (simp add: is_finite_def)
  then show "\<exists>out. snd (calc_rates curve_fit ts rs) = Inr out
             \<and> ret_p_sigma out = (PInf, PInf) \<and> \<not> is_finite (ret_K_error out)"
    unfolding r snd_conv using K_error_not_finite by simp
qed

theorem calc_rates_solver_failure_witness:
  "solver_raising RuntimeError calc_iratio [Fin 10, Fin 50, Fin 100] [Fin 0, Fin 0, Fin 0] = Inl RuntimeError
   \<and> calc_rates (solver_raising RuntimeError) [Fin 10, Fin 50, Fin 100] [Fin 0, Fin 0, Fin 0]
       = ([CurveFit [Fin 10, Fin 50, Fin 100] [Fin 0, Fin 0, Fin 0]], Inl RuntimeError)
   \<and> solver_returning (Fin 1, Fin 2) ((PInf, PInf), (PInf, PInf)) calc_iratio [Fin 10, Fin 50] [Fin (1/10), Fin (3/10)]
       = Inr ((Fin 1, Fin 2), ((PInf, PInf), (PInf, PInf)))
   \<and> (\<exists>out. snd (calc_rates (solver_returning (Fin 1, Fin 2) ((PInf, PInf), (PInf, PInf)))
                  [Fin 10, Fin 50] [Fin (1/10), Fin (3/10)]) = Inr out
         \<and> ret_p_sigma out = (PInf, PInf) \<and> \<not> is_finite (ret_K_error out))"
proof -
  let ?R = "solver_raising RuntimeError"
  let ?S = "solver_returning (Fin 1, Fin 2) ((PInf, PInf), (PInf, PInf))"
  have h1: "?R calc_iratio [Fin 10, Fin 50, Fin 100] [Fin 0, Fin 0, Fin 0] = Inl RuntimeError"
    by (simp add: solver_raising_def)
  have h2: "?S calc_iratio [Fin 10, Fin 50] [Fin (1/10), Fin (3/10)]
       = Inr ((Fin 1, Fin 2), ((PInf, PInf), (PInf, PInf)))"
    by (simp add: solver_returning_def)
  show ?thesis
    using h1 h2
      calc_rates_solver_failure [of ?R "[Fin 10, Fin 50, Fin 100]" "[Fin 0, Fin 0, Fin 0]" RuntimeError]
      calc_rates_solver_failure [of ?S "[Fin 10, Fin 50]" "[Fin (1/10), Fin (3/10)]" _ "(Fin 1, Fin 2)" PInf PInf]
    by simp
qed

text \<open>
  The specification asks for a failure in the second case too. With fitted rates 1 and 2 and
  a covariance filled with \<open>inf\<close> the call returns standard errors \<open>(inf, inf)\<close>.
\<close>

theorem calc_rates_covariance_counterexample:
  "snd (calc_rates (solver_returning (Fin 1, Fin 2) ((PInf, PInf), (PInf, PInf)))
       [Fin 10, Fin 50] [Fin (1/10), Fin (3/10)])
   = Inr \<lparr>ret_param = (Fin 1, Fin 2), ret_p_sigma = (PInf, PInf),
          ret_Kex = Fin (1 / 2), ret_K_error = PInf\<rparr>"
  by (simp add: calc_rates_def solver_returning_def Let_def np_diag_def np_sqrt_def signed_inf_def)


section \<open>Properties of loading and of the run\<close>

lemma load_data_Dim2:
  "load_data (Dim2 n rows) =
     (if n < 2 then Inl IndexError
      else Inr (map (\<lambda>r. r ! 0) rows, map (\<lambda>r. r ! 1) rows,
                if 2 < n then map (\<lambda>r. r ! 2) rows else zeros_like (map (\<lambda>r. r ! 1) rows)))"
  by (auto simp add: load_data_def)


text \<open>
  An array of fewer than two dimensions (a file of a single row or a single column) has no
  \<open>data[:, 0]\<close>: \<open>load_data\<close> raises.
\<close>

lemma load_data_needs_two_dimensions:
  "load_data (Dim0 x) = Inl IndexError \<and> load_data (Dim1 xs) = Inl IndexError"
  by (simp add: load_data_def)



text \<open>
  Claim C9. The error series does not reach the fit. Two loaded arrays of at least 2
  columns whose rows agree on the first two entries (the times and the ratios), whatever
  their third column and whether or not they have one, give the same run of \<open>calc_rates\<close>:
  the same solver call, the same printed lines, the same parameters, standard errors,
  exchange ratio and error, or the same exception.
\<close>

theorem main_fit_ignores_errors:
  assumes "2 \<le> n" "2 \<le> m" "map (take 2) rows_a = map (take 2) rows_b"
  shows "main_fit curve_fit (Dim2 n rows_a) = main_fit curve_fit (Dim2 m rows_b)"
proof -
  have c: "map (\<lambda>r. r ! j) rows = map (\<lambda>r. r ! j) (map (take 2) rows)" if "j < 2"
    for j and rows :: "float64 list list"
    using that by (simp add: comp_def)
  have "map (\<lambda>r. r ! 0) rows_a = map (\<lambda>r. r ! 0) rows_b"
    using c [of 0 rows_a] c [of 0 rows_b] assms(3) by simp
  moreover have "map (\<lambda>r. r ! 1) rows_a = map (\<lambda>r. r ! 1) rows_b"
    using c [of 1 rows_a] c [of 1 rows_b] assms(3) by simp
  ultimately show ?thesis
    using assms(1,2) by (simp add: main_fit_def load_data_Dim2)
qed

theorem main_fit_ignores_errors_witness:
  "(2::nat) \<le> 2 \<and> (2::nat) \<le> 3
   \<and> map (take 2) [[Fin 10, Fin (1/10)], [Fin 50, Fin (3/10)]]
     = map (take 2) [[Fin 10, Fin (1/10), Fin (1/100)], [Fin 50, Fin (3/10), Fin (1/50)]]
   \<and> main_fit (solver_returning (Fin 1, Fin 2) ((Fin 4, Fin 0), (Fin 0, Fin 9)))
        (Dim2 2 [[Fin 10, Fin (1/10)], [Fin 50, Fin (3/10)]])
     = main_fit (solver_returning (Fin 1, Fin 2) ((Fin 4, Fin 0), (Fin 0, Fin 9)))
        (Dim2 3 [[Fin 10, Fin (1/10), Fin (1/100)], [Fin 50, Fin (3/10), Fin (1/50)]])"
proof -
  have h: "map (take 2) [[Fin 10, Fin (1/10)], [Fin 50, Fin (3/10)]]
     = map (take 2) [[Fin 10, Fin (1/10), Fin (1/100)], [Fin 50, Fin (3/10), Fin (1/50)]]"
    by simp
  have n: "(2::nat) \<le> 2" and m: "(2::nat) \<le> 3" by simp_all
  from main_fit_ignores_errors [OF n m h] n m h show ?thesis by blast
qed

end
